theory Spec2Isabelle
  imports Complex_Main
begin

section \<open>JavaScript numbers\<close>

text \<open>
  A JavaScript \<^verbatim>\<open>number\<close> is a finite value, one of the two infinities, or NaN.
  Finite doubles are modelled by the real numbers they denote and arithmetic on them is
  exact: rounding, overflow to an infinity and the sign of zero are not modelled (a
  division of a finite number by zero takes the sign of the dividend, as for \<^verbatim>\<open>+0\<close>).
\<close>

datatype number = Fin real | PInf | NInf | NaN

text \<open>The sign of a number that is not NaN, and the infinity (or NaN) of a given sign.\<close>

fun sign_of :: "number \<Rightarrow> real" where
  "sign_of (Fin r) = sgn r"
| "sign_of PInf = 1"
| "sign_of NInf = - 1"
| "sign_of NaN = 0"

definition inf_of_sign :: "real \<Rightarrow> number" where
  "inf_of_sign s = (if s = 0 then NaN else if 0 < s then PInf else NInf)"

text \<open>\<^verbatim>\<open>a + b\<close>\<close>

fun num_add :: "number \<Rightarrow> number \<Rightarrow> number" where
  "num_add (Fin a) (Fin b) = Fin (a + b)"
| "num_add NaN _ = NaN"
| "num_add _ NaN = NaN"
| "num_add PInf NInf = NaN"
| "num_add NInf PInf = NaN"
| "num_add PInf _ = PInf"
| "num_add _ PInf = PInf"
| "num_add NInf _ = NInf"
| "num_add _ NInf = NInf"

text \<open>\<^verbatim>\<open>-a\<close>\<close>

fun num_neg :: "number \<Rightarrow> number" where
  "num_neg (Fin a) = Fin (- a)"
| "num_neg PInf = NInf"
| "num_neg NInf = PInf"
| "num_neg NaN = NaN"

text \<open>\<^verbatim>\<open>a - b\<close>\<close>

definition num_sub :: "number \<Rightarrow> number \<Rightarrow> number" where
  "num_sub a b = num_add a (num_neg b)"

text \<open>\<^verbatim>\<open>a * b\<close>: an infinity times zero is NaN.\<close>

fun num_mul :: "number \<Rightarrow> number \<Rightarrow> number" where
  "num_mul (Fin a) (Fin b) = Fin (a * b)"
| "num_mul NaN _ = NaN"
| "num_mul _ NaN = NaN"
| "num_mul a b = inf_of_sign (sign_of a * sign_of b)"

text \<open>
  \<^verbatim>\<open>a / b\<close>: zero by zero and infinity by infinity are NaN, a non-zero finite number
  by zero is an infinity, a finite number by an infinity is zero.
\<close>

fun num_div :: "number \<Rightarrow> number \<Rightarrow> number" where
  "num_div NaN _ = NaN"
| "num_div _ NaN = NaN"
| "num_div (Fin a) (Fin b) = (if b = 0 then inf_of_sign (sgn a) else Fin (a / b))"
| "num_div (Fin a) _ = Fin 0"
| "num_div a (Fin b) = inf_of_sign (sign_of a * (if b < 0 then - 1 else 1))"
| "num_div _ _ = NaN"

text \<open>
  \<^verbatim>\<open>a % b\<close>: the remainder has the sign of the dividend (the quotient is truncated
  towards zero); NaN when the dividend is infinite or the divisor is zero; the dividend
  itself when the divisor is infinite.
\<close>

definition trunc :: "real \<Rightarrow> int" where
  "trunc r = (if 0 \<le> r then \<lfloor>r\<rfloor> else \<lceil>r\<rceil>)"

fun num_mod :: "number \<Rightarrow> number \<Rightarrow> number" where
  "num_mod (Fin a) (Fin b) = (if b = 0 then NaN else Fin (a - b * of_int (trunc (a / b))))"
| "num_mod (Fin a) PInf = Fin a"
| "num_mod (Fin a) NInf = Fin a"
| "num_mod _ _ = NaN"

text \<open>\<^verbatim>\<open>a < b\<close> and \<^verbatim>\<open>a <= b\<close>: false as soon as one side is NaN.\<close>

fun num_lt :: "number \<Rightarrow> number \<Rightarrow> bool" where
  "num_lt (Fin a) (Fin b) = (a < b)"
| "num_lt NaN _ = False"
| "num_lt _ NaN = False"
| "num_lt _ NInf = False"
| "num_lt PInf _ = False"
| "num_lt _ _ = True"

fun num_le :: "number \<Rightarrow> number \<Rightarrow> bool" where
  "num_le (Fin a) (Fin b) = (a \<le> b)"
| "num_le NaN _ = False"
| "num_le _ NaN = False"
| "num_le NInf _ = True"
| "num_le _ PInf = True"
| "num_le _ _ = False"

text \<open>\<^verbatim>\<open>Math.max(a, b)\<close>: NaN as soon as one argument is NaN.\<close>

fun Math_max :: "number \<Rightarrow> number \<Rightarrow> number" where
  "Math_max (Fin a) (Fin b) = Fin (max a b)"
| "Math_max NaN _ = NaN"
| "Math_max _ NaN = NaN"
| "Math_max PInf _ = PInf"
| "Math_max _ PInf = PInf"
| "Math_max NInf b = b"
| "Math_max a NInf = a"

text \<open>\<^verbatim>\<open>Math.floor\<close>, \<^verbatim>\<open>Math.ceil\<close>: infinities and NaN are returned as they are.\<close>

fun Math_floor :: "number \<Rightarrow> number" where
  "Math_floor (Fin a) = Fin (of_int \<lfloor>a\<rfloor>)"
| "Math_floor a = a"

fun Math_ceil :: "number \<Rightarrow> number" where
  "Math_ceil (Fin a) = Fin (of_int \<lceil>a\<rceil>)"
| "Math_ceil a = a"

text \<open>\<^verbatim>\<open>Math.sqrt\<close>: NaN below zero.\<close>

fun Math_sqrt :: "number \<Rightarrow> number" where
  "Math_sqrt (Fin a) = (if a < 0 then NaN else Fin (sqrt a))"
| "Math_sqrt PInf = PInf"
| "Math_sqrt NInf = NaN"
| "Math_sqrt NaN = NaN"

text \<open>
  \<^verbatim>\<open>ToBoolean\<close> of a value that is a number or \<^verbatim>\<open>undefined\<close> (\<open>None\<close>): zero, NaN
  and \<^verbatim>\<open>undefined\<close> are falsy.
\<close>

fun truthy :: "number option \<Rightarrow> bool" where
  "truthy None = False"
| "truthy (Some (Fin a)) = (a \<noteq> 0)"
| "truthy (Some NaN) = False"
| "truthy (Some _) = True"

section \<open>Data model\<close>

text \<open>
  The interfaces \<^verbatim>\<open>ShapeAsset\<close>, \<^verbatim>\<open>PatternOptions\<close> and \<^verbatim>\<open>PlacedShape\<close> as records. The
  fields \<^verbatim>\<open>id\<close>, \<^verbatim>\<open>file\<close> and \<^verbatim>\<open>type\<close> of an asset are \<open>shape_id\<close>, \<open>shape_file\<close> and
  \<open>shape_type\<close> here, and the fields \<^verbatim>\<open>x\<close> and \<^verbatim>\<open>y\<close> of a placement are \<open>pos_x\<close> and
  \<open>pos_y\<close>. Every field of type \<^verbatim>\<open>number\<close> is a \<open>number\<close>.
\<close>

datatype AssetType = SVG | PNG

text \<open>
  A \<^verbatim>\<open>File\<close> of the browser: its name, its media type, and what a \<^verbatim>\<open>FileReader\<close>
  yields for it as data URL and as text (\<open>None\<close> when the reader raises its error
  event).
\<close>

record File =
  file_name :: string
  file_type :: string
  file_dataURL :: "string option"
  file_text :: "string option"

record ShapeAsset =
  shape_id :: string
  shape_file :: File
  shape_type :: AssetType
  dataUrl :: string
  svgContent :: "string option"
  width :: number
  height :: number

record PatternOptions =
  shapeCount :: number
  offsetIntensity :: number
  enableRotation :: bool
  canvasSize :: number

record PlacedShape =
  asset :: ShapeAsset
  pos_x :: number
  pos_y :: number
  rotation :: number
  scale :: number

text \<open>
  What a call can do besides returning: throw (reading a property of \<^verbatim>\<open>undefined\<close> is
  a \<^verbatim>\<open>TypeError\<close>).
\<close>

datatype error = TypeError

section \<open>Layout engine\<close>

text \<open>
  \<^verbatim>\<open>generatePatternLayout\<close> reads the asset pool \<^verbatim>\<open>shapes\<close> of the component and draws from
  \<^verbatim>\<open>Math.random()\<close>. In the model the pool is an argument, and so is the sequence \<open>rand\<close>
  of the values that \<^verbatim>\<open>Math.random()\<close> returns during the call, each of which lies in
  \<open>[0, 1)\<close> by the contract of that function.
\<close>

text \<open>
  \<^verbatim>\<open>shapes[k]\<close> for a number \<open>k\<close>: the element when \<open>k\<close> is an index of the array,
  \<^verbatim>\<open>undefined\<close> otherwise.
\<close>

fun array_get :: "'a list \<Rightarrow> number \<Rightarrow> 'a option" where
  "array_get xs (Fin r) =
     (if 0 \<le> r \<and> of_int \<lfloor>r\<rfloor> = r \<and> nat \<lfloor>r\<rfloor> < length xs then Some (xs ! nat \<lfloor>r\<rfloor>) else None)"
| "array_get xs _ = None"

text \<open>
  One pass through the body of the placement loop for index \<open>i\<close>. \<open>rand\<close> is the
  sequence of values that \<^verbatim>\<open>Math.random()\<close> returns and \<open>k\<close> the number of values
  drawn so far; the body draws three values, and a fourth when rotation is enabled, and
  returns the placement with the new count. It throws when the drawn asset is
  \<^verbatim>\<open>undefined\<close>.
\<close>

definition placeShape ::
  "(nat \<Rightarrow> real) \<Rightarrow> ShapeAsset list \<Rightarrow> PatternOptions \<Rightarrow> number \<Rightarrow> number \<Rightarrow> nat \<Rightarrow> nat
    \<Rightarrow> error + (PlacedShape \<times> nat)" where
  "placeShape rand shapes opts gridSize cellSize i k =
    (case array_get shapes
            (Math_floor (num_mul (Fin (rand k)) (Fin (real (length shapes))))) of
       None \<Rightarrow> Inl TypeError
     | Some a \<Rightarrow>
        (let row = Math_floor (num_div (Fin (real i)) gridSize);
             col = num_mod (Fin (real i)) gridSize;
             baseCenterX = num_add (num_mul col cellSize) (num_div cellSize (Fin 2));
             baseCenterY = num_add (num_mul row cellSize) (num_div cellSize (Fin 2));
             maxOffset = num_mul cellSize (offsetIntensity opts);
             offsetX = num_mul (num_sub (Fin (rand (k + 1))) (Fin (1 / 2))) maxOffset;
             offsetY = num_mul (num_sub (Fin (rand (k + 2))) (Fin (1 / 2))) maxOffset;
             x = num_add baseCenterX offsetX;
             y = num_add baseCenterY offsetY;
             rot = (if enableRotation opts then num_mul (Fin (rand (k + 3))) (Fin 360)
                    else Fin 0);
             k' = (if enableRotation opts then k + 4 else k + 3);
             maxDim = Math_max (width a) (height a);
             targetSize = num_mul cellSize (Fin (6 / 10));
             s = num_div targetSize maxDim
         in Inr (\<lparr>asset = a, pos_x = x, pos_y = y, rotation = rot, scale = s\<rparr>, k')))"

text \<open>
  The loop \<^verbatim>\<open>for (let i = 0; i < shapeCount; i++)\<close>. It does not end when
  \<open>shapeCount\<close> is \<open>+\<infinity>\<close>: the result \<open>None\<close> stands for a call that never returns.
\<close>

partial_function (option) layoutLoop ::
  "(nat \<Rightarrow> real) \<Rightarrow> ShapeAsset list \<Rightarrow> PatternOptions \<Rightarrow> number \<Rightarrow> number \<Rightarrow> nat \<Rightarrow> nat
    \<Rightarrow> PlacedShape list \<Rightarrow> (error + PlacedShape list) option" where
  "layoutLoop rand shapes opts gridSize cellSize i k layout =
    (if num_lt (Fin (real i)) (shapeCount opts) then
       (case placeShape rand shapes opts gridSize cellSize i k of
          Inl e \<Rightarrow> Some (Inl e)
        | Inr (p, k') \<Rightarrow> layoutLoop rand shapes opts gridSize cellSize (i + 1) k' (layout @ [p]))
     else Some (Inr layout))"

definition generatePatternLayout ::
  "(nat \<Rightarrow> real) \<Rightarrow> ShapeAsset list \<Rightarrow> PatternOptions \<Rightarrow> (error + PlacedShape list) option" where
  "generatePatternLayout rand shapes opts =
    (if length shapes = 0 then Some (Inr [])
     else
       (let gridSize = Math_ceil (Math_sqrt (shapeCount opts));
            cellSize = num_div (canvasSize opts) gridSize
        in layoutLoop rand shapes opts gridSize cellSize 0 0 []))"

section \<open>Strings\<close>

text \<open>\<^verbatim>\<open>s.includes(t)\<close>: \<open>t\<close> occurs in \<open>s\<close> as a contiguous substring.\<close>

fun str_includes :: "string \<Rightarrow> string \<Rightarrow> bool" where
  "str_includes [] t = (t = [])"
| "str_includes (c # s) t = (take (length t) (c # s) = t \<or> str_includes s t)"

text \<open>\<^verbatim>\<open>s.split(c)\<close> for a separator of one character: the empty string gives one empty part.\<close>

fun split :: "string \<Rightarrow> char \<Rightarrow> string list" where
  "split [] c = [[]]"
| "split (x # xs) c =
     (if x = c then [] # split xs c
      else (case split xs c of [] \<Rightarrow> [[x]] | w # ws \<Rightarrow> (x # w) # ws))"

text \<open>
  \<^verbatim>\<open>a || b\<close> for a string or \<^verbatim>\<open>null\<close> on the left (\<^verbatim>\<open>null\<close> and the empty string are
  falsy), and for a number or \<^verbatim>\<open>undefined\<close> on the left.
\<close>

fun str_or :: "string option \<Rightarrow> string \<Rightarrow> string" where
  "str_or None d = d"
| "str_or (Some s) d = (if s = [] then d else s)"

fun num_or :: "number option \<Rightarrow> number \<Rightarrow> number" where
  "num_or None d = d"
| "num_or (Some v) d = (if truthy (Some v) then v else d)"

text \<open>An array element read by destructuring: \<^verbatim>\<open>undefined\<close> past the end.\<close>

definition element :: "'a list \<Rightarrow> nat \<Rightarrow> 'a option" where
  "element xs n = (if n < length xs then Some (xs ! n) else None)"

text \<open>\<^verbatim>\<open>ToNumber\<close> of a number or \<^verbatim>\<open>undefined\<close>.\<close>

fun to_number :: "number option \<Rightarrow> number" where
  "to_number None = NaN"
| "to_number (Some v) = v"

subsection \<open>Numbers to strings\<close>

definition digit_char :: "nat \<Rightarrow> char" where
  "digit_char d = ''0123456789'' ! d"

fun string_of_nat :: "nat \<Rightarrow> string" where
  "string_of_nat n =
     (if n < 10 then [digit_char n] else string_of_nat (n div 10) @ [digit_char (n mod 10)])"

declare string_of_nat.simps [simp del]

text \<open>
  \<^verbatim>\<open>Number.prototype.toString\<close>, as a template literal applies it. An integer below
  \<open>10\<^sup>2\<^sup>1\<close> in magnitude prints as its decimal digits; for the other finite numbers
  the digits are those of the shortest decimal that reads back as the same double, which
  this model of numbers cannot tell: \<open>fmt\<close> supplies them.
\<close>

definition Number_toString :: "(real \<Rightarrow> string) \<Rightarrow> number \<Rightarrow> string" where
  "Number_toString fmt v =
     (case v of
        NaN \<Rightarrow> ''NaN''
      | PInf \<Rightarrow> ''Infinity''
      | NInf \<Rightarrow> ''-Infinity''
      | Fin r \<Rightarrow>
          if of_int \<lfloor>r\<rfloor> = r \<and> \<bar>r\<bar> < 10 ^ 21
          then (if r < 0 then ''-'' else '''') @ string_of_nat (nat \<lfloor>\<bar>r\<bar>\<rfloor>)
          else fmt r)"

text \<open>A template literal applied to a number or \<^verbatim>\<open>undefined\<close>.\<close>

fun show_value :: "(real \<Rightarrow> string) \<Rightarrow> number option \<Rightarrow> string" where
  "show_value fmt None = ''undefined''"
| "show_value fmt (Some v) = Number_toString fmt v"

text \<open>
  \<^verbatim>\<open>v.toFixed(f)\<close>: the sign, then the integer \<open>n\<close> nearest to \<open>\<bar>v\<bar> * 10\<^sup>f\<close> (the larger
  one of two) with a point before its last \<open>f\<close> digits, padded with zeros on the left to
  \<open>f + 1\<close> digits. Numbers that are not finite, and those of magnitude \<open>10\<^sup>2\<^sup>1\<close> or more,
  print as \<^verbatim>\<open>toString\<close> prints them.
\<close>

definition toFixed :: "(real \<Rightarrow> string) \<Rightarrow> number \<Rightarrow> nat \<Rightarrow> string" where
  "toFixed fmt v f =
     (case v of
        Fin r \<Rightarrow>
          (let s = (if r < 0 then ''-'' else ''''); x = \<bar>r\<bar> in
           if 10 ^ 21 \<le> x then s @ Number_toString fmt (Fin x)
           else
             (let n = nat \<lfloor>x * 10 ^ f + 1 / 2\<rfloor>; m = string_of_nat n in
              if f \<noteq> 0 then
                (let m' = replicate (f + 1 - length m) (CHR ''0'') @ m; k = length m'
                 in s @ take (k - f) m' @ ''.'' @ drop (k - f) m')
              else s @ m))
      | _ \<Rightarrow> Number_toString fmt v)"

section \<open>The browser\<close>

text \<open>
  The \<^verbatim>\<open>svg\<close> element that \<^verbatim>\<open>querySelector('svg')\<close> finds in a parsed document:
  \<^verbatim>\<open>getAttribute\<close> (\<open>None\<close> for \<^verbatim>\<open>null\<close>) and \<^verbatim>\<open>innerHTML\<close>.
\<close>

record SvgElement =
  getAttribute :: "string \<Rightarrow> string option"
  innerHTML :: string

text \<open>
  What the code takes from the platform, as parameters of the model:
  \<^item> \<open>querySelector_svg s\<close>: the result of
    \<^verbatim>\<open>new DOMParser().parseFromString(s, 'image/svg+xml').querySelector('svg')\<close>;
  \<^item> \<open>Number\<close> and \<open>parseFloat\<close> on strings;
  \<^item> \<open>formatNumber\<close>: the digits \<^verbatim>\<open>toString\<close> gives a finite number that is not an integer
    below \<open>10\<^sup>2\<^sup>1\<close>;
  \<^item> \<open>naturalSize url\<close>: the \<^verbatim>\<open>width\<close> and \<^verbatim>\<open>height\<close> of an \<^verbatim>\<open>Image\<close> loaded from
    \<open>url\<close>, \<open>None\<close> when its \<^verbatim>\<open>onload\<close> never fires;
  \<^item> \<open>Date_now i\<close>: the value of \<^verbatim>\<open>Date.now()\<close> when the file of index \<open>i\<close> is pushed.
\<close>

record Browser =
  querySelector_svg :: "string \<Rightarrow> SvgElement option"
  Number :: "string \<Rightarrow> number"
  parseFloat :: "string \<Rightarrow> number"
  formatNumber :: "real \<Rightarrow> string"
  naturalSize :: "string \<Rightarrow> (number \<times> number) option"
  Date_now :: "nat \<Rightarrow> nat"

section \<open>Asset normalizer\<close>

definition extractSVGDimensions :: "Browser \<Rightarrow> string \<Rightarrow> number \<times> number" where
  "extractSVGDimensions B markup =
     (case querySelector_svg B markup of
        Some svg \<Rightarrow>
          (let fromAttributes =
                 (parseFloat B (str_or (getAttribute svg ''width'') ''100''),
                  parseFloat B (str_or (getAttribute svg ''height'') ''100''))
           in case getAttribute svg ''viewBox'' of
                None \<Rightarrow> fromAttributes
              | Some viewBox \<Rightarrow>
                  if viewBox = [] then fromAttributes
                  else
                    (let parts = map (Number B) (split viewBox (CHR '' ''));
                         w = element parts 2;
                         h = element parts 3
                     in (num_or w (Fin 100), num_or h (Fin 100))))
      | None \<Rightarrow> (Fin 100, Fin 100))"

text \<open>How the promise of an \<^verbatim>\<open>async\<close> function ends, if it does.\<close>

datatype completion = Resolved | Rejected | Pending

text \<open>
  The loop of \<^verbatim>\<open>loadShapes\<close> over the files from index \<open>i\<close> on, with the assets
  collected so far and the messages shown by \<^verbatim>\<open>alert\<close> so far. A reader that fails
  rejects the promise; an image that never loads leaves it pending.
\<close>

fun loadLoop ::
  "Browser \<Rightarrow> File list \<Rightarrow> nat \<Rightarrow> ShapeAsset list \<Rightarrow> string list
    \<Rightarrow> completion \<times> ShapeAsset list \<times> string list" where
  "loadLoop B [] i newShapes alerts = (Resolved, newShapes, alerts)"
| "loadLoop B (f # files) i newShapes alerts =
     (let fileType = file_type f in
      if \<not> str_includes fileType ''svg'' \<and> \<not> str_includes fileType ''png''
      then loadLoop B files (i + 1) newShapes
             (alerts @ [''Unsupported file type: '' @ file_name f])
      else
        (case file_dataURL f of
           None \<Rightarrow> (Rejected, newShapes, alerts)
         | Some url \<Rightarrow>
            (let type = (if str_includes fileType ''svg'' then SVG else PNG);
                 ident = ''shape-'' @ string_of_nat (Date_now B i) @ ''-'' @ string_of_nat i
             in if type = SVG then
                  (case file_text f of
                     None \<Rightarrow> (Rejected, newShapes, alerts)
                   | Some text \<Rightarrow>
                      (let dims = extractSVGDimensions B text
                       in loadLoop B files (i + 1)
                            (newShapes @
                              [\<lparr>shape_id = ident, shape_file = f, shape_type = type,
                                dataUrl = url, svgContent = Some text,
                                width = fst dims, height = snd dims\<rparr>])
                            alerts))
                else
                  (case naturalSize B url of
                     None \<Rightarrow> (Pending, newShapes, alerts)
                   | Some dims \<Rightarrow>
                       loadLoop B files (i + 1)
                         (newShapes @
                           [\<lparr>shape_id = ident, shape_file = f, shape_type = type,
                             dataUrl = url, svgContent = None,
                             width = fst dims, height = snd dims\<rparr>])
                         alerts))))"

text \<open>
  The state that \<^verbatim>\<open>loadShapes\<close> acts on: the asset pool of the component and the
  messages shown to the user.
\<close>

record Session =
  session_shapes :: "ShapeAsset list"
  session_alerts :: "string list"

definition loadShapes :: "Browser \<Rightarrow> File list \<Rightarrow> Session \<Rightarrow> completion \<times> Session" where
  "loadShapes B files st =
     (case loadLoop B files 0 [] (session_alerts st) of
        (Resolved, newShapes, shown) \<Rightarrow>
          (Resolved, \<lparr>session_shapes = session_shapes st @ newShapes, session_alerts = shown\<rparr>)
      | (c, newShapes, shown) \<Rightarrow> (c, st\<lparr>session_alerts := shown\<rparr>))"

section \<open>Vector renderer\<close>

text \<open>The template literal \<^verbatim>\<open>transform\<close> of a placement.\<close>

definition transform_of :: "Browser \<Rightarrow> PlacedShape \<Rightarrow> string" where
  "transform_of B shape =
     ''translate('' @ toFixed (formatNumber B) (pos_x shape) 2 @ '', '' @
       toFixed (formatNumber B) (pos_y shape) 2 @ '') rotate('' @
       toFixed (formatNumber B) (rotation shape) 2 @ '') scale('' @
       toFixed (formatNumber B) (scale shape) 4 @ '')''"

text \<open>What one pass of the loop of \<^verbatim>\<open>renderToSVG\<close> appends for a placement.\<close>

definition shapeMarkup :: "Browser \<Rightarrow> PlacedShape \<Rightarrow> string" where
  \<open>shapeMarkup B shape =
     (let a = asset shape; transform = transform_of B shape; str = Number_toString (formatNumber B) in
      if shape_type a = SVG \<and> svgContent a \<noteq> None \<and> svgContent a \<noteq> Some [] then
        (case querySelector_svg B (the (svgContent a)) of
           None \<Rightarrow> []
         | Some svgEl \<Rightarrow>
            (let innerContent = innerHTML svgEl;
                 viewBox = str_or (getAttribute svgEl ''viewBox'')
                             (''0 0 '' @ str (width a) @ '' '' @ str (height a));
                 parts = map (Number B) (split viewBox (CHR '' ''));
                 vbW = element parts 2;
                 vbH = element parts 3
             in ''  <g transform="'' @ transform @ '' translate('' @
                  str (num_div (num_neg (to_number vbW)) (Fin 2)) @ '', '' @
                  str (num_div (num_neg (to_number vbH)) (Fin 2)) @ '')">\<newline>'' @
                ''    <svg viewBox="'' @ viewBox @ ''" width="'' @
                  show_value (formatNumber B) vbW @ ''" height="'' @
                  show_value (formatNumber B) vbH @ ''">\<newline>'' @
                ''      '' @ innerContent @ ''\<newline>'' @
                ''    </svg>\<newline>'' @
                ''  </g>\<newline>''))
      else
        ''  <image \<newline>'' @
        ''    href="'' @ dataUrl a @ ''" \<newline>'' @
        ''    width="'' @ str (width a) @ ''" \<newline>'' @
        ''    height="'' @ str (height a) @ ''" \<newline>'' @
        ''    transform="'' @ transform @ '' translate('' @
          str (num_div (num_neg (width a)) (Fin 2)) @ '', '' @
          str (num_div (num_neg (height a)) (Fin 2)) @ '')"\<newline>'' @
        ''  />\<newline>'')\<close>

definition renderToSVG :: "Browser \<Rightarrow> PlacedShape list \<Rightarrow> number \<Rightarrow> string" where
  \<open>renderToSVG B layout canvas =
     (let sz = Number_toString (formatNumber B) canvas in
      ''<?xml version="1.0" encoding="UTF-8"?>\<newline>'' @
      ''<svg width="'' @ sz @ ''" height="'' @ sz @ ''" viewBox="0 0 '' @ sz @ '' '' @ sz @
        ''" xmlns="http://www.w3.org/2000/svg" xmlns:xlink="http://www.w3.org/1999/xlink">\<newline>'' @
      ''  <rect width="'' @ sz @ ''" height="'' @ sz @ ''" fill="white"/>\<newline>'' @
      concat (map (shapeMarkup B) layout) @
      ''</svg>'')\<close>

section \<open>Notions used in the statements\<close>

text \<open>
  The test \<^verbatim>\<open>loadShapes\<close> makes on the media type of a file, the success of the reads it
  awaits for a file that passes the test, and the message it shows for one that fails.
\<close>

definition supported :: "File \<Rightarrow> bool" where
  "supported f = (str_includes (file_type f) ''svg'' \<or> str_includes (file_type f) ''png'')"

definition readable :: "Browser \<Rightarrow> File \<Rightarrow> bool" where
  "readable B f =
     (case file_dataURL f of
        None \<Rightarrow> False
      | Some url \<Rightarrow>
          if str_includes (file_type f) ''svg'' then file_text f \<noteq> None
          else naturalSize B url \<noteq> None)"

definition warning :: "File \<Rightarrow> string" where
  "warning f = ''Unsupported file type: '' @ file_name f"

section \<open>Concrete inputs\<close>

subsection \<open>For the layout engine\<close>

text \<open>
  Two sequences of values for \<^verbatim>\<open>Math.random()\<close>, a raster asset of 200 by 100, and
  option records: scenario A of the specification (four shapes on a canvas of 400, no
  jitter, no rotation), one shape with jitter and rotation, and a negative count.
\<close>

definition rand_half :: "nat \<Rightarrow> real" where
  "rand_half n = 1 / 2"


definition file_A :: File where
  "file_A = \<lparr>file_name = ''a.png'', file_type = ''image/png'',
     file_dataURL = Some ''data:image/png;base64,AAAA'', file_text = Some []\<rparr>"

definition asset_A :: ShapeAsset where
  "asset_A = \<lparr>shape_id = ''shape-1700000000000-2'', shape_file = file_A, shape_type = PNG,
     dataUrl = ''data:image/png;base64,AAAA'', svgContent = None,
     width = Fin 200, height = Fin 100\<rparr>"

definition options_A :: PatternOptions where
  "options_A = \<lparr>shapeCount = Fin 4, offsetIntensity = Fin 0, enableRotation = False,
     canvasSize = Fin 400\<rparr>"

definition options_B :: PatternOptions where
  "options_B = \<lparr>shapeCount = Fin 1, offsetIntensity = Fin (1 / 2), enableRotation = True,
     canvasSize = Fin 100\<rparr>"

definition options_none :: PatternOptions where
  "options_none = \<lparr>shapeCount = Fin (- 3), offsetIntensity = Fin (1 / 2),
     enableRotation = True, canvasSize = Fin 100\<rparr>"




subsection \<open>For the asset normalizer and the vector renderer\<close>

text \<open>
  A stand-in for \<^verbatim>\<open>Number\<close> and \<^verbatim>\<open>parseFloat\<close> on the strings of the examples: the value
  of a non-empty string of decimal digits, NaN for any other string. The examples apply
  it to \<^verbatim>\<open>"0"\<close>, \<^verbatim>\<open>"50"\<close> and \<^verbatim>\<open>"100"\<close>, to \<^verbatim>\<open>"auto"\<close> (NaN for both functions) and, as
  \<^verbatim>\<open>Number\<close> only, to \<^verbatim>\<open>"0,0,50,50"\<close> (NaN).
\<close>

definition decimal :: "string \<Rightarrow> number" where
  "decimal s =
     (if s \<noteq> [] \<and> list_all (\<lambda>c. c \<in> set ''0123456789'') s
      then Fin (real (foldl (\<lambda>n c. 10 * n + (of_char c - 48)) 0 s))
      else NaN)"

text \<open>
  Documents and the \<^verbatim>\<open>svg\<close> element found in each: one without an \<^verbatim>\<open>svg\<close> element, one
  with the viewBox of scenario C, one with a zero in its viewBox, one with a viewBox
  separated by commas, one with \<^verbatim>\<open>width\<close> and \<^verbatim>\<open>height\<close> attributes only, and one without
  attributes.
\<close>

definition no_svg :: string where
  "no_svg = ''<p/>''"

definition svg_fifty :: string where
  \<open>svg_fifty = ''<svg viewBox="0 0 50 50"></svg>''\<close>

definition svg_zero :: string where
  \<open>svg_zero = ''<svg viewBox="0 0 0 50"></svg>''\<close>

definition svg_commas :: string where
  \<open>svg_commas = ''<svg viewBox="0,0,50,50"><circle cx="25" cy="25" r="20"/></svg>''\<close>

definition svg_attrs :: string where
  \<open>svg_attrs = ''<svg width="0" height="auto"></svg>''\<close>

definition svg_bare :: string where
  "svg_bare = ''<svg></svg>''"

definition element_fifty :: SvgElement where
  "element_fifty = \<lparr>getAttribute = [''viewBox'' \<mapsto> ''0 0 50 50''], innerHTML = []\<rparr>"

definition element_zero :: SvgElement where
  "element_zero = \<lparr>getAttribute = [''viewBox'' \<mapsto> ''0 0 0 50''], innerHTML = []\<rparr>"

definition element_commas :: SvgElement where
  \<open>element_commas = \<lparr>getAttribute = [''viewBox'' \<mapsto> ''0,0,50,50''],
     innerHTML = ''<circle cx="25" cy="25" r="20"/>''\<rparr>\<close>

definition element_attrs :: SvgElement where
  "element_attrs =
     \<lparr>getAttribute = [''width'' \<mapsto> ''0'', ''height'' \<mapsto> ''auto''], innerHTML = []\<rparr>"

definition element_bare :: SvgElement where
  "element_bare = \<lparr>getAttribute = Map.empty, innerHTML = []\<rparr>"

definition document_of :: "string \<Rightarrow> SvgElement option" where
  "document_of s =
     (if s = svg_fifty then Some element_fifty
      else if s = svg_zero then Some element_zero
      else if s = svg_commas then Some element_commas
      else if s = svg_attrs then Some element_attrs
      else if s = svg_bare then Some element_bare
      else None)"

text \<open>
  The rest of the browser of the examples: no call for the digits of a fraction is made,
  the image of \<open>file_A\<close> is 200 by 100, and the clock stands still.
\<close>

definition no_digits :: "real \<Rightarrow> string" where
  "no_digits r = []"

definition image_size :: "string \<Rightarrow> (number \<times> number) option" where
  "image_size url =
     (if url = ''data:image/png;base64,AAAA'' then Some (Fin 200, Fin 100) else None)"

definition clock :: "nat \<Rightarrow> nat" where
  "clock i = 1700000000000"

definition browser :: Browser where
  "browser = \<lparr>querySelector_svg = document_of, Number = decimal, parseFloat = decimal,
     formatNumber = no_digits, naturalSize = image_size, Date_now = clock\<rparr>"

text \<open>Files, the assets \<^verbatim>\<open>loadShapes\<close> makes of them, and a placement.\<close>

definition file_fifty :: File where
  "file_fifty = \<lparr>file_name = ''fifty.svg'', file_type = ''image/svg+xml'',
     file_dataURL = Some ''data:image/svg+xml;base64,AAAA'', file_text = Some svg_fifty\<rparr>"

definition file_jpeg :: File where
  "file_jpeg = \<lparr>file_name = ''photo.jpg'', file_type = ''image/jpeg'',
     file_dataURL = Some ''data:image/jpeg;base64,AAAA'', file_text = Some []\<rparr>"

definition file_attrs :: File where
  "file_attrs = \<lparr>file_name = ''attrs.svg'', file_type = ''image/svg+xml'',
     file_dataURL = Some ''data:image/svg+xml;base64,BBBB'', file_text = Some svg_attrs\<rparr>"

definition file_commas :: File where
  "file_commas = \<lparr>file_name = ''commas.svg'', file_type = ''image/svg+xml'',
     file_dataURL = Some ''data:image/svg+xml;base64,CCCC'', file_text = Some svg_commas\<rparr>"

definition session_empty :: Session where
  "session_empty = \<lparr>session_shapes = [], session_alerts = []\<rparr>"

definition asset_fifty :: ShapeAsset where
  "asset_fifty = \<lparr>shape_id = ''shape-1700000000000-0'', shape_file = file_fifty,
     shape_type = SVG, dataUrl = ''data:image/svg+xml;base64,AAAA'',
     svgContent = Some svg_fifty, width = Fin 50, height = Fin 50\<rparr>"

definition asset_attrs :: ShapeAsset where
  "asset_attrs = \<lparr>shape_id = ''shape-1700000000000-0'', shape_file = file_attrs,
     shape_type = SVG, dataUrl = ''data:image/svg+xml;base64,BBBB'',
     svgContent = Some svg_attrs, width = Fin 0, height = NaN\<rparr>"

definition asset_commas :: ShapeAsset where
  "asset_commas = \<lparr>shape_id = ''shape-1700000000000-0'', shape_file = file_commas,
     shape_type = SVG, dataUrl = ''data:image/svg+xml;base64,CCCC'',
     svgContent = Some svg_commas, width = Fin 100, height = Fin 100\<rparr>"

definition placed_commas :: PlacedShape where
  "placed_commas = \<lparr>asset = asset_commas, pos_x = Fin 50, pos_y = Fin 50, rotation = Fin 0,
     scale = Fin (3 / 5)\<rparr>"

section \<open>The placement loop\<close>

lemma lt_real_iff: "real i < s \<longleftrightarrow> i < nat \<lceil>s\<rceil>"
  by (metis less_ceiling_iff of_int_of_nat_eq zless_nat_eq_int_zless)

lemma random_index:
  assumes "0 \<le> r" "r < 1" "xs \<noteq> []"
  shows "array_get xs (Math_floor (num_mul (Fin r) (Fin (real (length xs))))) =
           Some (xs ! nat \<lfloor>r * real (length xs)\<rfloor>)"
    and "nat \<lfloor>r * real (length xs)\<rfloor> < length xs"
proof -
  have len: "0 < real (length xs)" using assms(3) by simp
  have nn: "0 \<le> r * real (length xs)" using assms(1) by simp
  have "r * real (length xs) < real (length xs)" using assms(2) len by simp
  then have "\<lfloor>r * real (length xs)\<rfloor> < int (length xs)"
    by (simp add: floor_less_iff)
  moreover have "0 \<le> \<lfloor>r * real (length xs)\<rfloor>" using nn by simp
  ultimately show 2: "nat \<lfloor>r * real (length xs)\<rfloor> < length xs" by linarith
  then show "array_get xs (Math_floor (num_mul (Fin r) (Fin (real (length xs))))) =
           Some (xs ! nat \<lfloor>r * real (length xs)\<rfloor>)"
    using \<open>0 \<le> \<lfloor>r * real (length xs)\<rfloor>\<close> by simp
qed

lemma placeShape_returns:
  assumes "\<forall>n. 0 \<le> rand n \<and> rand n < 1" "shapes \<noteq> []"
  shows "\<exists>p k'. placeShape rand shapes opts g c i k = Inr (p, k') \<and> asset p \<in> set shapes"
proof -
  have r: "0 \<le> rand k" "rand k < 1" using assms(1) by auto
  show ?thesis
    unfolding placeShape_def Let_def
    using random_index[OF r assms(2)] by simp
qed

lemma layoutLoop_finite:
  assumes "\<forall>n. 0 \<le> rand n \<and> rand n < 1" "shapes \<noteq> []" "shapeCount opts = Fin s"
  shows "\<exists>ps. layoutLoop rand shapes opts g c i k layout = Some (Inr (layout @ ps)) \<and>
           length ps = nat \<lceil>s\<rceil> - i \<and>
           (\<forall>j<length ps. \<exists>kj kj'. placeShape rand shapes opts g c (i + j) kj = Inr (ps ! j, kj'))"
proof (induction "nat \<lceil>s\<rceil> - i" arbitrary: i k layout)
  case 0
  then have "\<not> i < nat \<lceil>s\<rceil>" by linarith
  then have "\<not> real i < s" by (metis lt_real_iff)
  then have stop: "\<not> num_lt (Fin (real i)) (shapeCount opts)" using assms(3) by simp
  have "layoutLoop rand shapes opts g c i k layout = Some (Inr layout)"
    by (subst layoutLoop.simps) (simp add: stop)
  then show ?case using 0(1) by simp
next
  case (Suc m)
  then have "i < nat \<lceil>s\<rceil>" by linarith
  then have lt: "real i < s" by (metis lt_real_iff)
  obtain p k' where p: "placeShape rand shapes opts g c i k = Inr (p, k')"
    using placeShape_returns[OF assms(1,2)] by blast
  from Suc(2) have m: "m = nat \<lceil>s\<rceil> - Suc i" by simp
  obtain ps where ps: "layoutLoop rand shapes opts g c (Suc i) k' (layout @ [p]) = Some (Inr ((layout @ [p]) @ ps))"
     "length ps = nat \<lceil>s\<rceil> - Suc i"
     "\<forall>j<length ps. \<exists>kj kj'. placeShape rand shapes opts g c (Suc i + j) kj = Inr (ps ! j, kj')"
    using Suc(1)[OF m] by blast
  have go: "num_lt (Fin (real i)) (shapeCount opts)" using lt assms(3) by simp
  have run: "layoutLoop rand shapes opts g c i k layout = Some (Inr (layout @ (p # ps)))"
    by (subst layoutLoop.simps) (simp add: go p ps(1))
  have len: "length (p # ps) = nat \<lceil>s\<rceil> - i" using ps(2) Suc(2) by simp
  have "\<exists>kj kj'. placeShape rand shapes opts g c (i + j) kj = Inr ((p # ps) ! j, kj')"
    if "j < length (p # ps)" for j
  proof (cases j)
    case 0
    then show ?thesis using p by auto
  next
    case (Suc j')
    then have "j' < length ps" using that by simp
    then show ?thesis using ps(3) Suc by auto
  qed
  then show ?case using run len by blast
qed

lemma layoutLoop_stops:
  assumes "\<not> num_lt (Fin (real i)) (shapeCount opts)"
  shows "layoutLoop rand shapes opts g c i k layout = Some (Inr layout)"
  by (subst layoutLoop.simps) (simp add: assms)

lemma generatePatternLayout_finite:
  assumes "\<forall>n. 0 \<le> rand n \<and> rand n < 1" "shapes \<noteq> []" "shapeCount opts = Fin s"
  shows "\<exists>layout. generatePatternLayout rand shapes opts = Some (Inr layout) \<and>
           length layout = nat \<lceil>s\<rceil> \<and>
           (\<forall>i<length layout. \<exists>k k'.
              placeShape rand shapes opts (Math_ceil (Math_sqrt (shapeCount opts)))
                (num_div (canvasSize opts) (Math_ceil (Math_sqrt (shapeCount opts)))) i k
              = Inr (layout ! i, k'))"
  using layoutLoop_finite[OF assms, of _ _ 0 0 "[]"] assms(2)
  by (simp add: generatePatternLayout_def Let_def)

lemma generatePatternLayout_returns:
  assumes "\<forall>n. 0 \<le> rand n \<and> rand n < 1" "shapeCount opts \<noteq> PInf"
  shows "\<exists>layout. generatePatternLayout rand shapes opts = Some (Inr layout) \<and>
           (\<forall>p\<in>set layout. \<exists>i k k'.
              placeShape rand shapes opts (Math_ceil (Math_sqrt (shapeCount opts)))
                (num_div (canvasSize opts) (Math_ceil (Math_sqrt (shapeCount opts)))) i k
              = Inr (p, k'))"
proof (cases "shapes = []")
  case True
  then show ?thesis by (simp add: generatePatternLayout_def)
next
  case ne: False
  show ?thesis
  proof (cases "shapeCount opts")
    case (Fin s)
    from generatePatternLayout_finite[OF assms(1) ne Fin]
    show ?thesis by (metis in_set_conv_nth)
  next
    case PInf
    then show ?thesis using assms(2) by simp
  next
    case NInf
    then show ?thesis using ne
      by (simp add: generatePatternLayout_def Let_def layoutLoop_stops)
  next
    case NaN
    then show ?thesis using ne
      by (simp add: generatePatternLayout_def Let_def layoutLoop_stops)
  qed
qed

lemma placeShape_asset:
  assumes "placeShape rand shapes opts g c i k = Inr (p, k')"
  shows "asset p \<in> set shapes"
  using assms
  by (cases "Math_floor (num_mul (Fin (rand k)) (Fin (real (length shapes))))")
     (auto simp: placeShape_def Let_def split: option.splits if_splits)

lemma placeShape_rotation:
  assumes "placeShape rand shapes opts g c i k = Inr (p, k')"
  shows "rotation p = (if enableRotation opts then Fin (rand (k + 3) * 360) else Fin 0)"
  using assms by (auto simp: placeShape_def Let_def split: option.splits)







section \<open>Properties of the layout engine\<close>

text \<open>
  C8: with an empty asset pool, generatePatternLayout returns the empty sequence and
  raises no error, whatever the options are.
\<close>

theorem generatePatternLayout_empty_pool:
  "generatePatternLayout rand [] opts = Some (Inr [])"
  by (simp add: generatePatternLayout_def)

text \<open>
  C10: with a non-empty pool and shapeCount \<open>\<le> 0\<close>, generatePatternLayout returns the empty
  sequence: the count is not clamped to 1 and no error is raised.
\<close>

theorem nonpositive_count_empty:
  assumes "shapes \<noteq> []" and "num_le (shapeCount opts) (Fin 0)"
  shows "generatePatternLayout rand shapes opts = Some (Inr [])"
proof -
  have "\<not> num_lt (Fin (real 0)) (shapeCount opts)"
    using assms(2) by (cases "shapeCount opts") simp_all
  then show ?thesis using assms(1)
    by (simp add: generatePatternLayout_def Let_def layoutLoop_stops)
qed

theorem nonpositive_count_empty_witness:
  "[asset_A] \<noteq> [] \<and> num_le (shapeCount options_none) (Fin 0) \<and>
   generatePatternLayout rand_half [asset_A] options_none = Some (Inr [])"
  using nonpositive_count_empty[of "[asset_A]" options_none rand_half]
  by (simp add: options_none_def)

text \<open>
  C1: for a non-empty pool and a positive integer shapeCount, generatePatternLayout returns
  a sequence of exactly shapeCount placements, and the asset of every placement is an
  element of the pool. (\<open>rand\<close> is any sequence of values of \<^verbatim>\<open>Math.random()\<close>, each
  in \<open>[0, 1)\<close>; the result does not depend on offsetIntensity or canvasSize being valid.)
\<close>

theorem layout_count_and_pool:
  assumes "\<forall>k. 0 \<le> rand k \<and> rand k < 1"
    and "shapes \<noteq> []"
    and "shapeCount opts = Fin (real n)" and "0 < n"
  shows "\<exists>layout. generatePatternLayout rand shapes opts = Some (Inr layout) \<and>
           length layout = n \<and> (\<forall>p\<in>set layout. asset p \<in> set shapes)"
proof -
  obtain layout where l: "generatePatternLayout rand shapes opts = Some (Inr layout)"
      "length layout = nat \<lceil>real n\<rceil>"
      "\<forall>i<length layout. \<exists>k k'.
              placeShape rand shapes opts (Math_ceil (Math_sqrt (shapeCount opts)))
                (num_div (canvasSize opts) (Math_ceil (Math_sqrt (shapeCount opts)))) i k
              = Inr (layout ! i, k')"
    using generatePatternLayout_finite[OF assms(1,2,3)] by blast
  have "asset p \<in> set shapes" if pin: "p \<in> set layout" for p
  proof -
    obtain i where "i < length layout" "layout ! i = p"
      using pin by (auto simp: in_set_conv_nth)
    then show ?thesis using l(3) placeShape_asset by metis
  qed
  moreover have "length layout = n" using l(2) by simp
  ultimately show ?thesis using l(1) by blast
qed

theorem layout_count_and_pool_witness:
  "(\<forall>k. 0 \<le> rand_half k \<and> rand_half k < 1) \<and> [asset_A] \<noteq> [] \<and>
   shapeCount options_A = Fin (real 4) \<and> (0::nat) < 4 \<and>
   (\<exists>layout. generatePatternLayout rand_half [asset_A] options_A = Some (Inr layout) \<and>
      length layout = 4 \<and> (\<forall>p\<in>set layout. asset p \<in> set [asset_A]))"
  using layout_count_and_pool[of rand_half "[asset_A]" options_A 4]
  by (simp add: rand_half_def options_A_def)

text \<open>
  C7: every call with a shapeCount other than \<open>+\<infinity>\<close> returns, and every placement it
  returns has a rotation \<open>r\<close> with \<open>0 \<le> r < 360\<close>, which is 0 when enableRotation is false.
\<close>

theorem rotation_range:
  assumes "\<forall>k. 0 \<le> rand k \<and> rand k < 1"
    and "shapeCount opts \<noteq> PInf"
  shows "\<exists>layout. generatePatternLayout rand shapes opts = Some (Inr layout) \<and>
           (\<forall>p\<in>set layout. \<exists>r. rotation p = Fin r \<and> 0 \<le> r \<and> r < 360 \<and>
              (\<not> enableRotation opts \<longrightarrow> r = 0))"
proof -
  obtain layout where l: "generatePatternLayout rand shapes opts = Some (Inr layout)"
      "\<forall>p\<in>set layout. \<exists>i k k'.
              placeShape rand shapes opts (Math_ceil (Math_sqrt (shapeCount opts)))
                (num_div (canvasSize opts) (Math_ceil (Math_sqrt (shapeCount opts)))) i k
              = Inr (p, k')"
    using generatePatternLayout_returns[OF assms] by blast
  have "\<exists>r. rotation p = Fin r \<and> 0 \<le> r \<and> r < 360 \<and> (\<not> enableRotation opts \<longrightarrow> r = 0)"
    if pin: "p \<in> set layout" for p
  proof -
    obtain i k k' where "placeShape rand shapes opts (Math_ceil (Math_sqrt (shapeCount opts)))
                (num_div (canvasSize opts) (Math_ceil (Math_sqrt (shapeCount opts)))) i k
              = Inr (p, k')"
      using l(2) pin by blast
    then have rot: "rotation p = (if enableRotation opts then Fin (rand (k + 3) * 360) else Fin 0)"
      by (rule placeShape_rotation)
    have "0 \<le> rand (k + 3)" "rand (k + 3) < 1" using assms(1) by auto
    then have "0 \<le> rand (k + 3) * 360" "rand (k + 3) * 360 < 360" by simp_all
    then show ?thesis using rot by auto
  qed
  then show ?thesis using l(1) by blast
qed

theorem rotation_range_witness:
  "(\<forall>k. 0 \<le> rand_half k \<and> rand_half k < 1) \<and> shapeCount options_B \<noteq> PInf \<and>
   (\<exists>layout. generatePatternLayout rand_half [asset_A] options_B = Some (Inr layout) \<and>
      (\<forall>p\<in>set layout. \<exists>r. rotation p = Fin r \<and> 0 \<le> r \<and> r < 360 \<and>
         (\<not> enableRotation options_B \<longrightarrow> r = 0)))"
  using rotation_range[of rand_half options_B "[asset_A]"]
  by (simp add: rand_half_def options_B_def)






section \<open>Evaluation of the examples\<close>

lemma string_of_nat_digit: "n < 10 \<Longrightarrow> string_of_nat n = [digit_char n]"
  by (subst string_of_nat.simps) simp

lemma string_of_nat_more:
  "\<not> n < 10 \<Longrightarrow> string_of_nat n = string_of_nat (n div 10) @ [digit_char (n mod 10)]"
  by (subst string_of_nat.simps) simp

lemmas string_of_nat_eval = string_of_nat_digit string_of_nat_more digit_char_def

lemma browser_sel:
  "querySelector_svg browser = document_of" "Number browser = decimal"
  "parseFloat browser = decimal" "formatNumber browser = no_digits"
  "naturalSize browser = image_size" "Date_now browser = clock"
  by (simp_all add: browser_def)

lemma document_of_eval:
  "document_of no_svg = None" "document_of svg_fifty = Some element_fifty"
  "document_of svg_zero = Some element_zero" "document_of svg_commas = Some element_commas"
  "document_of svg_attrs = Some element_attrs" "document_of svg_bare = Some element_bare"
  by (simp_all add: document_of_def no_svg_def svg_fifty_def svg_zero_def svg_commas_def
      svg_attrs_def svg_bare_def)

lemma decimal_eval:
  "decimal ''0'' = Fin 0" "decimal ''50'' = Fin 50" "decimal ''100'' = Fin 100"
  "decimal ''auto'' = NaN" "decimal ''0,0,50,50'' = NaN"
  by (simp_all add: decimal_def)

lemma extract_eval:
  "extractSVGDimensions browser no_svg = (Fin 100, Fin 100)"
  "extractSVGDimensions browser svg_fifty = (Fin 50, Fin 50)"
  "extractSVGDimensions browser svg_zero = (Fin 100, Fin 50)"
  "extractSVGDimensions browser svg_commas = (Fin 100, Fin 100)"
  "extractSVGDimensions browser svg_attrs = (Fin 0, NaN)"
  "extractSVGDimensions browser svg_bare = (Fin 100, Fin 100)"
  by (simp_all add: extractSVGDimensions_def browser_sel document_of_eval decimal_eval
      element_fifty_def element_zero_def element_commas_def element_attrs_def element_bare_def
      element_def Let_def)

lemma load_eval:
  "loadShapes browser [file_attrs] session_empty =
     (Resolved, \<lparr>session_shapes = [asset_attrs], session_alerts = []\<rparr>)"
  "loadShapes browser [file_commas] session_empty =
     (Resolved, \<lparr>session_shapes = [asset_commas], session_alerts = []\<rparr>)"
  "loadShapes browser [file_fifty, file_jpeg, file_A] session_empty =
     (Resolved, \<lparr>session_shapes = [asset_fifty, asset_A],
                session_alerts = [''Unsupported file type: photo.jpg'']\<rparr>)"
  by (simp_all add: loadShapes_def extract_eval file_attrs_def file_commas_def file_fifty_def
      file_jpeg_def file_A_def asset_attrs_def asset_commas_def asset_fifty_def asset_A_def
      session_empty_def browser_sel clock_def image_size_def string_of_nat_eval Let_def)

lemma toFixed_eval:
  "toFixed fmt (Fin 50) 2 = ''50.00''" "toFixed fmt (Fin 0) 2 = ''0.00''"
  "toFixed fmt (Fin (3 / 5)) 4 = ''0.6000''"
  by (simp_all add: toFixed_def string_of_nat_eval Let_def)

lemma transform_eval:
  "transform_of browser placed_commas = ''translate(50.00, 50.00) rotate(0.00) scale(0.6000)''"
  by (simp add: transform_of_def placed_commas_def toFixed_eval)

lemma shapeMarkup_eval:
  \<open>shapeMarkup browser placed_commas =
    ''  <g transform="translate(50.00, 50.00) rotate(0.00) scale(0.6000) translate(NaN, NaN)">\<newline>'' @
    ''    <svg viewBox="0,0,50,50" width="undefined" height="undefined">\<newline>'' @
    ''      <circle cx="25" cy="25" r="20"/>\<newline>'' @
    ''    </svg>\<newline>'' @
    ''  </g>\<newline>''\<close>
proof -
  have ne: "svg_commas \<noteq> []" by (simp add: svg_commas_def)
  show ?thesis
    unfolding shapeMarkup_def transform_eval
    by (simp add: ne placed_commas_def asset_commas_def browser_sel document_of_eval
        decimal_eval element_commas_def element_def Number_toString_def Let_def)
qed

section \<open>Properties of the asset normalizer\<close>





lemma loadLoop_batch:
  assumes "\<forall>f\<in>set files. supported f \<longrightarrow> readable B f"
  shows "\<exists>new. loadLoop B files i acc shown =
            (Resolved, acc @ new, shown @ map warning (filter (\<lambda>f. \<not> supported f) files)) \<and>
          map shape_file new = filter supported files"
  using assms
proof (induction files arbitrary: i acc shown)
  case Nil
  then show ?case by simp
next
  case (Cons f files)
  from Cons.prems have rest: "\<forall>f\<in>set files. supported f \<longrightarrow> readable B f" by simp
  show ?case
  proof (cases "supported f")
    case False
    obtain new where new: "loadLoop B files (i + 1) acc (shown @ [warning f]) =
            (Resolved, acc @ new, (shown @ [warning f]) @ map warning (filter (\<lambda>f. \<not> supported f) files))"
        "map shape_file new = filter supported files"
      using Cons.IH[OF rest] by blast
    have "\<not> str_includes (file_type f) ''svg'' \<and> \<not> str_includes (file_type f) ''png''"
      using False by (simp add: supported_def)
    then have "loadLoop B (f # files) i acc shown = loadLoop B files (i + 1) acc (shown @ [warning f])"
      by (simp add: warning_def Let_def)
    then show ?thesis using new False
      by (intro exI[of _ new]) simp
  next
    case True
    then have rd: "readable B f" using Cons.prems by simp
    then obtain url where url: "file_dataURL f = Some url"
      by (auto simp: readable_def split: option.splits)
    show ?thesis
    proof (cases "str_includes (file_type f) ''svg''")
      case svg: True
      then obtain content where content: "file_text f = Some content"
        using rd url by (auto simp: readable_def)
      define a where "a = \<lparr>shape_id = ''shape-'' @ string_of_nat (Date_now B i) @ ''-'' @ string_of_nat i,
           shape_file = f, shape_type = SVG, dataUrl = url, svgContent = Some content,
           width = fst (extractSVGDimensions B content),
           height = snd (extractSVGDimensions B content)\<rparr>"
      obtain new where new: "loadLoop B files (i + 1) (acc @ [a]) shown =
            (Resolved, (acc @ [a]) @ new, shown @ map warning (filter (\<lambda>f. \<not> supported f) files))"
        "map shape_file new = filter supported files"
        using Cons.IH[OF rest] by blast
      have "loadLoop B (f # files) i acc shown = loadLoop B files (i + 1) (acc @ [a]) shown"
        using svg url content by (simp add: Let_def a_def)
      moreover have "shape_file a = f" by (simp add: a_def)
      ultimately show ?thesis using new True
        by (intro exI[of _ "a # new"]) simp
    next
      case png: False
      then obtain dims where dims: "naturalSize B url = Some dims"
        using rd url by (auto simp: readable_def)
      define a where "a = \<lparr>shape_id = ''shape-'' @ string_of_nat (Date_now B i) @ ''-'' @ string_of_nat i,
           shape_file = f, shape_type = PNG, dataUrl = url, svgContent = None,
           width = fst dims, height = snd dims\<rparr>"
      obtain new where new: "loadLoop B files (i + 1) (acc @ [a]) shown =
            (Resolved, (acc @ [a]) @ new, shown @ map warning (filter (\<lambda>f. \<not> supported f) files))"
        "map shape_file new = filter supported files"
        using Cons.IH[OF rest] by blast
      have "str_includes (file_type f) ''png''" using True png by (simp add: supported_def)
      then have "loadLoop B (f # files) i acc shown = loadLoop B files (i + 1) (acc @ [a]) shown"
        using png url dims by (simp add: Let_def a_def)
      moreover have "shape_file a = f" by (simp add: a_def)
      ultimately show ?thesis using new True
        by (intro exI[of _ "a # new"]) simp
    qed
  qed
qed

text \<open>
  C9: when the reads of the accepted files succeed, a batch with files of other kinds is
  not aborted. \<^verbatim>\<open>loadShapes\<close> resolves; for each file that is neither svg nor png it shows
  a warning that names the file, in batch order; and it appends to the pool one asset for
  each accepted file, in batch order, so no rejected file is in the pool.
\<close>

theorem loadShapes_skips_unsupported:
  assumes "\<forall>f\<in>set files. supported f \<longrightarrow> readable B f"
  shows "\<exists>newShapes. loadShapes B files st =
           (Resolved,
            \<lparr>session_shapes = session_shapes st @ newShapes,
             session_alerts = session_alerts st @ map warning (filter (\<lambda>f. \<not> supported f) files)\<rparr>) \<and>
           map shape_file newShapes = filter supported files"
proof -
  obtain new where "loadLoop B files 0 [] (session_alerts st) =
            (Resolved, [] @ new, session_alerts st @ map warning (filter (\<lambda>f. \<not> supported f) files))"
          "map shape_file new = filter supported files"
    using loadLoop_batch[OF assms] by blast
  then show ?thesis by (simp add: loadShapes_def)
qed

theorem loadShapes_skips_unsupported_witness:
  "supported file_fifty \<and> readable browser file_fifty \<and> \<not> supported file_jpeg \<and>
   supported file_A \<and> readable browser file_A \<and>
   loadShapes browser [file_fifty, file_jpeg, file_A] session_empty =
     (Resolved, \<lparr>session_shapes = [asset_fifty, asset_A],
                session_alerts = [''Unsupported file type: photo.jpg'']\<rparr>) \<and>
   map shape_file [asset_fifty, asset_A] = filter supported [file_fifty, file_jpeg, file_A]"
proof -
  have s: "supported file_fifty" "\<not> supported file_jpeg" "supported file_A"
    by (simp_all add: supported_def file_fifty_def file_jpeg_def file_A_def)
  have r: "readable browser file_fifty" "readable browser file_A"
    by (simp_all add: readable_def file_fifty_def file_A_def browser_sel image_size_def)
  have "\<forall>f\<in>set [file_fifty, file_jpeg, file_A]. supported f \<longrightarrow> readable browser f"
    using s r by simp
  from loadShapes_skips_unsupported[OF this, of session_empty]
  obtain newShapes where "loadShapes browser [file_fifty, file_jpeg, file_A] session_empty =
           (Resolved,
            \<lparr>session_shapes = session_shapes session_empty @ newShapes,
             session_alerts = session_alerts session_empty @
               map warning (filter (\<lambda>f. \<not> supported f) [file_fifty, file_jpeg, file_A])\<rparr>)"
       "map shape_file newShapes = filter supported [file_fifty, file_jpeg, file_A]"
    by blast
  then have "newShapes = [asset_fifty, asset_A]"
    and "map shape_file newShapes = filter supported [file_fifty, file_jpeg, file_A]"
    unfolding load_eval(3) by (simp_all add: session_empty_def)
  then have "map shape_file [asset_fifty, asset_A] = filter supported [file_fifty, file_jpeg, file_A]"
    by simp
  then show ?thesis using s r load_eval(3) by (simp only: simp_thms)
qed

text \<open>
  C4 does not hold of the code: an svg file without viewBox whose \<^verbatim>\<open>width\<close> is \<^verbatim>\<open>"0"\<close> and
  whose \<^verbatim>\<open>height\<close> is \<^verbatim>\<open>"auto"\<close> enters the pool with width 0 and height NaN. The
  fallback to 100 that the viewBox branch applies to a zero or NaN component is missing in
  the branch of the width and height attributes.
\<close>

theorem loadShapes_nonpositive_dimensions:
  "supported file_attrs \<and> readable browser file_attrs \<and>
   loadShapes browser [file_attrs] session_empty =
     (Resolved, \<lparr>session_shapes = [asset_attrs], session_alerts = []\<rparr>) \<and>
   width asset_attrs = Fin 0 \<and> height asset_attrs = NaN"
proof -
  have "supported file_attrs" "readable browser file_attrs"
    by (simp_all add: supported_def readable_def file_attrs_def)
  moreover have "width asset_attrs = Fin 0" "height asset_attrs = NaN"
    by (simp_all add: asset_attrs_def)
  ultimately show ?thesis using load_eval(1) by simp
qed

section \<open>Properties of the vector renderer\<close>

text \<open>
  C2 does not hold of the code for a vector asset whose viewBox is not four numbers
  between single spaces. The asset of \<^verbatim>\<open>viewBox="0,0,50,50"\<close> has the intrinsic size 100
  by 100 (the fallback of extractSVGDimensions), so the last translation should be by
  \<open>(-50, -50)\<close>; renderToSVG reads the viewBox again without the fallback and emits
  \<^verbatim>\<open>translate(NaN, NaN)\<close>, with \<^verbatim>\<open>undefined\<close> as width and height of the nested element.
\<close>

theorem renderToSVG_viewBox_without_fallback:
  \<open>loadShapes browser [file_commas] session_empty =
     (Resolved, \<lparr>session_shapes = [asset_commas], session_alerts = []\<rparr>) \<and>
   asset placed_commas = asset_commas \<and>
   width asset_commas = Fin 100 \<and> height asset_commas = Fin 100 \<and>
   renderToSVG browser [placed_commas] (Fin 100) =
     ''<?xml version="1.0" encoding="UTF-8"?>\<newline>'' @
     ''<svg width="100" height="100" viewBox="0 0 100 100" xmlns="http://www.w3.org/2000/svg" xmlns:xlink="http://www.w3.org/1999/xlink">\<newline>'' @
     ''  <rect width="100" height="100" fill="white"/>\<newline>'' @
     ''  <g transform="translate(50.00, 50.00) rotate(0.00) scale(0.6000) translate(NaN, NaN)">\<newline>'' @
     ''    <svg viewBox="0,0,50,50" width="undefined" height="undefined">\<newline>'' @
     ''      <circle cx="25" cy="25" r="20"/>\<newline>'' @
     ''    </svg>\<newline>'' @
     ''  </g>\<newline>'' @
     ''</svg>''\<close>
proof -
  have "asset placed_commas = asset_commas"
    by (simp add: placed_commas_def)
  moreover have "width asset_commas = Fin 100" "height asset_commas = Fin 100"
    by (simp_all add: asset_commas_def)
  moreover have \<open>renderToSVG browser [placed_commas] (Fin 100) =
     ''<?xml version="1.0" encoding="UTF-8"?>\<newline>'' @
     ''<svg width="100" height="100" viewBox="0 0 100 100" xmlns="http://www.w3.org/2000/svg" xmlns:xlink="http://www.w3.org/1999/xlink">\<newline>'' @
     ''  <rect width="100" height="100" fill="white"/>\<newline>'' @
     ''  <g transform="translate(50.00, 50.00) rotate(0.00) scale(0.6000) translate(NaN, NaN)">\<newline>'' @
     ''    <svg viewBox="0,0,50,50" width="undefined" height="undefined">\<newline>'' @
     ''      <circle cx="25" cy="25" r="20"/>\<newline>'' @
     ''    </svg>\<newline>'' @
     ''  </g>\<newline>'' @
     ''</svg>''\<close>
    unfolding renderToSVG_def
    by (simp add: shapeMarkup_eval Number_toString_def string_of_nat_eval Let_def)
  ultimately show ?thesis using load_eval(2) by simp
qed

end
